theory Spec2Isabelle
  imports Complex_Main "HOL-Library.Word"
begin

section \<open>Configuration snapshot (config.py)\<close>

datatype AlertMode = IMAGE | NUMBER | FILTERED

record CaptureRegion =
  region_x :: int
  region_y :: int
  region_width :: int
  region_height :: int

text \<open>
  \<^verbatim>\<open>TextColor\<close>: the channels and the tolerance are Python integers, the skew a Python
  float. Floats are embedded as reals: rounding of the binary format is abstracted, the
  special values that the soft policy can produce are modelled further down.
\<close>

record TextColor =
  tc_r :: int
  tc_g :: int
  tc_b :: int
  tc_tolerance :: int
  tc_skew :: real

text \<open>The fields of \<^verbatim>\<open>AppConfig\<close> that the monitor thread reads at the start of a cycle.\<close>

record AppConfig =
  capture_region :: CaptureRegion
  text_color :: TextColor
  threshold :: int
  polling_rate_ms :: int
  alert_mode :: AlertMode

text \<open>The defaults of the dataclasses: what \<^verbatim>\<open>AppConfig()\<close> holds.\<close>

definition default_region :: CaptureRegion where
  "default_region = \<lparr>region_x = 1800, region_y = 1030, region_width = 60, region_height = 35\<rparr>"

definition default_text_color :: TextColor where
  "default_text_color = \<lparr>tc_r = 255, tc_g = 255, tc_b = 255, tc_tolerance = 30, tc_skew = 0\<rparr>"

definition default_config :: AppConfig where
  "default_config =
     \<lparr>capture_region = default_region, text_color = default_text_color,
      threshold = 50, polling_rate_ms = 100, alert_mode = IMAGE\<rparr>"

section \<open>Pixel buffers\<close>

text \<open>
  A pixel buffer is a grid with explicit width and height; \<open>img_rows\<close> lists the rows from
  top to bottom, each row from left to right, as \<^verbatim>\<open>np.array(img)\<close> does (shape height by
  width). Channels are unsigned bytes.
\<close>

record 'p image =
  img_width :: nat
  img_height :: nat
  img_rows :: "'p list list"

type_synonym rgb = "8 word \<times> 8 word \<times> 8 word"

type_synonym mask = "8 word image"

text \<open>
  A pixel of the RGBA display buffer. The alpha channel is \<open>None\<close> where numpy converts a
  value to \<^verbatim>\<open>uint8\<close> for which the conversion has no specified result (not-a-number, an
  infinity, a value outside the byte range).
\<close>

type_synonym rgba = "8 word \<times> 8 word \<times> 8 word \<times> 8 word option"

text \<open>The value of \<^verbatim>\<open>filtered_img\<close>: a mode L mask or a mode RGBA display buffer.\<close>

datatype frame = ModeL mask | ModeRGBA "rgba image"

definition pixel_at :: "'p image \<Rightarrow> nat \<Rightarrow> nat \<Rightarrow> 'p" where
  "pixel_at img row col = img_rows img ! row ! col"

section \<open>The imaging library\<close>

text \<open>
  Two operations of Pillow that \<^verbatim>\<open>capture.py\<close> calls are parameters of the embedding:
  \<^item> \<open>bilinear\<close>: the bilinear resampling of \<^verbatim>\<open>Image.transform\<close> at a position of the
    input buffer, \<open>None\<close> where the position lies outside the buffer;
  \<^item> \<open>lanczos\<close>: \<^verbatim>\<open>Image.resize(size, Image.Resampling.LANCZOS)\<close> on a mode L buffer.
\<close>

record imaging =
  bilinear :: "rgb image \<Rightarrow> real \<times> real \<Rightarrow> rgb option"
  lanczos :: "nat \<times> nat \<Rightarrow> mask \<Rightarrow> mask"

section \<open>Skew correction (capture.py, \_apply\_skew, lines 119-147)\<close>

text \<open>Python's \<^verbatim>\<open>int()\<close> of a float truncates towards zero.\<close>

definition py_int :: "real \<Rightarrow> int" where
  "py_int v = (if 0 \<le> v then \<lfloor>v\<rfloor> else \<lceil>v\<rceil>)"

text \<open>Lines 125-126: \<^verbatim>\<open>shift = abs(skew * img.width); new_height = int(img.height + shift)\<close>.\<close>

definition new_height :: "nat \<Rightarrow> nat \<Rightarrow> real \<Rightarrow> int" where
  "new_height w h skew = (let shift = \<bar>skew * real w\<bar> in py_int (real h + shift))"

type_synonym coeffs = "real \<times> real \<times> real \<times> real \<times> real \<times> real"

text \<open>Lines 131-137: the six coefficients handed to the affine transform.\<close>

definition skew_coeffs :: "nat \<Rightarrow> real \<Rightarrow> coeffs" where
  "skew_coeffs w skew =
     (if skew > 0
      then (1, 0, 0, - skew, 1, skew * real w)
      else (1, 0, 0, - skew, 1, 0))"

text \<open>
  The affine map of the transform, as the source states it on lines 128-129 and as
  Pillow documents it: output \<open>(x, y)\<close> is taken from input
  \<open>(a x + b y + c, d x + e y + f)\<close>. The embedding keeps these coordinates of a pixel;
  Pillow anchors them at the centre of the pixel.
\<close>

definition affine_input :: "coeffs \<Rightarrow> real \<times> real \<Rightarrow> real \<times> real" where
  "affine_input k p =
     (case k of (a, b, c, d, e, f) \<Rightarrow>
        (case p of (x, y) \<Rightarrow> (a * x + b * y + c, d * x + e * y + f)))"

text \<open>
  \<^verbatim>\<open>img.transform(size, Image.AFFINE, coeffs, resample=BILINEAR, fillcolor=...)\<close>: a buffer
  of the requested size whose pixel in column \<open>x\<close> of row \<open>y\<close> is resampled from the input
  at the affine image of \<open>(x, y)\<close>, and is the fill colour where that lies outside.
\<close>

definition transform_affine ::
    "imaging \<Rightarrow> nat \<times> nat \<Rightarrow> coeffs \<Rightarrow> rgb \<Rightarrow> rgb image \<Rightarrow> rgb image" where
  "transform_affine lib sz k fillcolor img =
     \<lparr>img_width = fst sz, img_height = snd sz,
      img_rows =
        map (\<lambda>y. map (\<lambda>x. (case bilinear lib img (affine_input k (real x, real y)) of
                               None \<Rightarrow> fillcolor
                             | Some p \<Rightarrow> p))
                       [0..<fst sz])
            [0..<snd sz]\<rparr>"

text \<open>
  \<^verbatim>\<open>_apply_skew\<close>. The captured buffer has mode RGB, so the fill colour is \<^verbatim>\<open>0\<close>, black.
  The new height is never negative (a height plus an absolute value).
\<close>

definition apply_skew :: "imaging \<Rightarrow> rgb image \<Rightarrow> real \<Rightarrow> rgb image" where
  "apply_skew lib img skew =
     (if skew = 0 then img
      else transform_affine lib
             (img_width img, nat (new_height (img_width img) (img_height img) skew))
             (skew_coeffs (img_width img) skew) (0, 0, 0) img)"

section \<open>Hard policy (capture.py, \_preprocess\_image, lines 149-180)\<close>

text \<open>
  \<^verbatim>\<open>np.abs(arr[:, :, c].astype(np.int16) - target) <= tolerance\<close>. The channel is widened
  to 16 bits; for a target in the range of \<^verbatim>\<open>int16\<close> (the data model has 0 to 255) the
  difference and the absolute value are computed in 16 bits and wrap around. The
  comparison with the tolerance, a Python integer, is the mathematical one.
\<close>

definition np_abs16 :: "16 word \<Rightarrow> 16 word" where
  "np_abs16 v = (if sint v < 0 then - v else v)"

definition channel_match :: "8 word \<Rightarrow> int \<Rightarrow> int \<Rightarrow> bool" where
  "channel_match p target tolerance =
     (sint (np_abs16 (ucast p - word_of_int target)) \<le> tolerance)"

definition matches :: "TextColor \<Rightarrow> rgb \<Rightarrow> bool" where
  "matches tc px =
     (case px of (r, g, b) \<Rightarrow>
        channel_match r (tc_r tc) (tc_tolerance tc) \<and>
        channel_match g (tc_g tc) (tc_tolerance tc) \<and>
        channel_match b (tc_b tc) (tc_tolerance tc))"

text \<open>Lines 171-174: \<^verbatim>\<open>np.where(matches, 255, 0).astype(np.uint8)\<close> as a mode L buffer.\<close>

definition binary_mask :: "TextColor \<Rightarrow> rgb image \<Rightarrow> mask" where
  "binary_mask tc img =
     \<lparr>img_width = img_width img, img_height = img_height img,
      img_rows = map (map (\<lambda>px. if matches tc px then 255 else 0)) (img_rows img)\<rparr>"

text \<open>
  The matched-pixel set of a mask: the positions (row, column) that hold 255.
\<close>

definition matched_pixels :: "mask \<Rightarrow> (nat \<times> nat) set" where
  "matched_pixels m =
     set (concat (map (\<lambda>row. map (\<lambda>col. (row, col))
                                  (filter (\<lambda>col. pixel_at m row col = 255)
                                          [0..<length (img_rows m ! row)]))
                      [0..<length (img_rows m)]))"

text \<open>A mask all of whose pixels are 0 or 255.\<close>

definition binary_valued :: "mask \<Rightarrow> bool" where
  "binary_valued m = list_all (list_all (\<lambda>v. v = 0 \<or> v = 255)) (img_rows m)"

definition preprocess_image :: "imaging \<Rightarrow> rgb image \<Rightarrow> TextColor \<Rightarrow> mask" where
  "preprocess_image lib img tc =
     (let img1 = (if tc_skew tc \<noteq> 0 then apply_skew lib img (tc_skew tc) else img);
          m = binary_mask tc img1;
          new_size = (img_width m * 2, img_height m * 2)
      in lanczos lib new_size m)"

section \<open>Soft policy (capture.py, \_preprocess\_for\_display, lines 182-218)\<close>

text \<open>
  The values of a numpy float that the soft policy can reach: a finite number (embedded
  as a real), the two infinities and not-a-number. numpy does not raise on a division by
  zero: a positive number over zero is infinity, zero over zero is not-a-number.
\<close>

datatype npfloat = Finite real | PosInf | NegInf | NaN

definition np_divide :: "real \<Rightarrow> real \<Rightarrow> npfloat" where
  "np_divide a b =
     (if b \<noteq> 0 then Finite (a / b)
      else if 0 < a then PosInf
      else if a < 0 then NegInf
      else NaN)"

text \<open>\<^verbatim>\<open>1.0 - v\<close>.\<close>

fun np_one_minus :: "npfloat \<Rightarrow> npfloat" where
  "np_one_minus (Finite v) = Finite (1 - v)"
| "np_one_minus PosInf = NegInf"
| "np_one_minus NegInf = PosInf"
| "np_one_minus NaN = NaN"

text \<open>\<^verbatim>\<open>np.clip(v, 0, 1)\<close>: the minimum with 1 of the maximum with 0; not-a-number passes.\<close>

fun np_clip01 :: "npfloat \<Rightarrow> npfloat" where
  "np_clip01 (Finite v) = Finite (min (max v 0) 1)"
| "np_clip01 PosInf = Finite 1"
| "np_clip01 NegInf = Finite 0"
| "np_clip01 NaN = NaN"

text \<open>\<^verbatim>\<open>np.power(v, p)\<close> for a positive exponent \<open>p\<close> that is not an integer.\<close>

fun np_power :: "npfloat \<Rightarrow> real \<Rightarrow> npfloat" where
  "np_power (Finite v) p = (if v < 0 then NaN else Finite (v powr p))"
| "np_power PosInf p = PosInf"
| "np_power NegInf p = PosInf"
| "np_power NaN p = NaN"

text \<open>\<^verbatim>\<open>v * c\<close> for a positive finite constant \<open>c\<close>.\<close>

fun np_times :: "npfloat \<Rightarrow> real \<Rightarrow> npfloat" where
  "np_times (Finite v) c = Finite (v * c)"
| "np_times PosInf c = PosInf"
| "np_times NegInf c = NegInf"
| "np_times NaN c = NaN"

text \<open>
  \<^verbatim>\<open>.astype(np.uint8)\<close>: the fraction is cut off (towards zero); the result is specified
  only where the truncated value is a byte.
\<close>

fun astype_uint8 :: "npfloat \<Rightarrow> 8 word option" where
  "astype_uint8 (Finite v) =
     (if 0 \<le> py_int v \<and> py_int v \<le> 255 then Some (word_of_int (py_int v)) else None)"
| "astype_uint8 PosInf = None"
| "astype_uint8 NegInf = None"
| "astype_uint8 NaN = None"

text \<open>Lines 194-209 for one pixel: the alpha value.\<close>

definition soft_alpha :: "TextColor \<Rightarrow> rgb \<Rightarrow> 8 word option" where
  "soft_alpha tc px =
     (case px of (r, g, b) \<Rightarrow>
        (let r_diff = real (unat r) - real_of_int (tc_r tc);
             g_diff = real (unat g) - real_of_int (tc_g tc);
             b_diff = real (unat b) - real_of_int (tc_b tc);
             distance = sqrt (r_diff ^ 2 + g_diff ^ 2 + b_diff ^ 2);
             max_distance = real_of_int (tc_tolerance tc) * 1.732;
             alpha = np_clip01 (np_one_minus (np_divide distance max_distance));
             alpha = np_power alpha 0.7;
             alpha = np_times alpha 255
         in astype_uint8 alpha))"

text \<open>Lines 212-216: white with the alpha of the pixel.\<close>

definition soft_pixel :: "TextColor \<Rightarrow> rgb \<Rightarrow> rgba" where
  "soft_pixel tc px = (255, 255, 255, soft_alpha tc px)"

definition preprocess_for_display :: "imaging \<Rightarrow> rgb image \<Rightarrow> TextColor \<Rightarrow> rgba image" where
  "preprocess_for_display lib img tc =
     (let img1 = (if tc_skew tc \<noteq> 0 then apply_skew lib img (tc_skew tc) else img)
      in \<lparr>img_width = img_width img1, img_height = img_height img1,
          img_rows = map (map (soft_pixel tc)) (img_rows img1)\<rparr>)"

section \<open>Change detection (capture.py, EnergyMonitor.run, lines 57-73)\<close>

text \<open>
  The two attributes that \<^verbatim>\<open>EnergyMonitor.__init__\<close> initialises for the detector:
  \<^verbatim>\<open>_last_energy = -1\<close> and \<^verbatim>\<open>_last_below_threshold = None\<close>.
\<close>

record EnergyMonitor =
  last_energy :: int
  last_below_threshold :: "bool option"

definition init_monitor :: EnergyMonitor where
  "init_monitor = \<lparr>last_energy = - 1, last_below_threshold = None\<rparr>"

text \<open>
  Everything a cycle does to the outside, in program order: the four Qt signals, the
  sleep at the end of the cycle, and the call of the recognizer
  (\<^verbatim>\<open>pytesseract.image_to_string\<close>) with the mask it is given.
\<close>

datatype effect =
    energy_changed int
  | threshold_crossed bool
  | filtered_image frame
  | ocr_error string
  | msleep int
  | image_to_string mask

text \<open>
  Lines 57-73 of \<^verbatim>\<open>run\<close>. Python compares \<^verbatim>\<open>below_threshold\<close> (a bool) with
  \<^verbatim>\<open>_last_below_threshold\<close> (a bool or \<^verbatim>\<open>None\<close>) by \<^verbatim>\<open>!=\<close>: \<^verbatim>\<open>None\<close> differs from both
  booleans.
\<close>

definition detect :: "int \<Rightarrow> AlertMode \<Rightarrow> int option \<Rightarrow> EnergyMonitor
    \<Rightarrow> effect list \<times> EnergyMonitor" where
  "detect thr mode energy st =
     (case energy of
        Some e \<Rightarrow>
          (let (fx1, st1) =
                 (if e \<noteq> last_energy st
                  then ([energy_changed e], st\<lparr>last_energy := e\<rparr>)
                  else ([], st));
               below_threshold = (e < thr);
               (fx2, st2) =
                 (if Some below_threshold \<noteq> last_below_threshold st1
                  then ([threshold_crossed below_threshold],
                        st1\<lparr>last_below_threshold := Some below_threshold\<rparr>)
                  else ([], st1))
           in (fx1 @ fx2, st2))
      | None \<Rightarrow>
          (if mode = FILTERED
           then (if last_below_threshold st \<noteq> Some True
                 then ([threshold_crossed True], st\<lparr>last_below_threshold := Some True\<rparr>)
                 else ([], st))
           else ([], st)))"

text \<open>
  The change detector fed a sequence of recognized values, one per cycle, under a fixed
  threshold and mode: the events of each cycle, in order.
\<close>

fun feed :: "int \<Rightarrow> AlertMode \<Rightarrow> EnergyMonitor \<Rightarrow> int option list \<Rightarrow> effect list list" where
  "feed thr mode st [] = []"
| "feed thr mode st (e # es) =
     (let (fx, st') = detect thr mode e st in fx # feed thr mode st' es)"

fun energy_payloads :: "effect list \<Rightarrow> int list" where
  "energy_payloads [] = []"
| "energy_payloads (energy_changed e # fx) = e # energy_payloads fx"
| "energy_payloads (_ # fx) = energy_payloads fx"

fun threshold_payloads :: "effect list \<Rightarrow> bool list" where
  "threshold_payloads [] = []"
| "threshold_payloads (threshold_crossed b # fx) = b # threshold_payloads fx"
| "threshold_payloads (_ # fx) = threshold_payloads fx"

fun recognizer_calls :: "effect list \<Rightarrow> mask list" where
  "recognizer_calls [] = []"
| "recognizer_calls (image_to_string m # fx) = m # recognizer_calls fx"
| "recognizer_calls (_ # fx) = recognizer_calls fx"

section \<open>Recognition (capture.py, \_capture\_and\_read, lines 85-117)\<close>

text \<open>
  \<^verbatim>\<open>str.strip()\<close>, \<^verbatim>\<open>str.isdigit()\<close> and \<^verbatim>\<open>int()\<close> on the recognizer's output, which the
  whitelist of the call restricts to the ten ASCII digits and white space.
\<close>

definition is_space :: "char \<Rightarrow> bool" where
  "is_space c =
     (let n = (of_char c :: nat) in (9 \<le> n \<and> n \<le> 13) \<or> (28 \<le> n \<and> n \<le> 32))"

definition strip :: "string \<Rightarrow> string" where
  "strip s = rev (dropWhile is_space (rev (dropWhile is_space s)))"

definition is_digit :: "char \<Rightarrow> bool" where
  "is_digit c = (let n = (of_char c :: nat) in 48 \<le> n \<and> n \<le> 57)"

definition int_of_digits :: "string \<Rightarrow> int" where
  "int_of_digits s = foldl (\<lambda>n c. 10 * n + (of_char c - 48)) 0 s"

text \<open>
  Lines 109-117. The recognizer's answer is \<open>None\<close> when the call raised, which the
  \<^verbatim>\<open>except Exception\<close> around it turns into "no reading".
\<close>

definition read_energy :: "string option \<Rightarrow> int option" where
  "read_energy answer =
     (case answer of
        None \<Rightarrow> None
      | Some raw \<Rightarrow>
          (let txt = strip raw
           in if txt \<noteq> [] \<and> list_all is_digit txt then Some (int_of_digits txt) else None))"

text \<open>
  \<^verbatim>\<open>_capture_and_read\<close>. The screenshot is what the screen shows, so the outcome of
  \<^verbatim>\<open>grab\<close> and \<^verbatim>\<open>Image.frombytes\<close> is an input: \<open>Inl msg\<close> when the capture raised (with
  the text of the exception), \<open>Inr img\<close> otherwise. The recognizer is an input too. The
  result carries the effects of the call, the reading and the processed frame.
\<close>

definition capture_and_read ::
    "imaging \<Rightarrow> string + rgb image \<Rightarrow> (mask \<Rightarrow> string option) \<Rightarrow> TextColor \<Rightarrow> AlertMode
      \<Rightarrow> string + effect list \<times> int option \<times> frame option" where
  "capture_and_read lib grab ocr tc mode =
     (case grab of
        Inl msg \<Rightarrow> Inl msg
      | Inr img \<Rightarrow>
          (if mode = FILTERED
           then Inr ([], None, Some (ModeRGBA (preprocess_for_display lib img tc)))
           else (let filtered_img = preprocess_image lib img tc
                 in Inr ([image_to_string filtered_img],
                         read_energy (ocr filtered_img),
                         Some (ModeL filtered_img)))))"

section \<open>The polling loop (capture.py, EnergyMonitor.run, lines 40-80)\<close>

text \<open>
  What one pass of the loop observes: the value of \<^verbatim>\<open>_running\<close> at the loop test (\<^verbatim>\<open>stop()\<close>
  clears it from another thread), the configuration snapshot read under the mutex, the
  outcome of the capture and the recognizer.
\<close>

record cycle_env =
  env_running :: bool
  env_config :: AppConfig
  env_grab :: "string + rgb image"
  env_ocr :: "mask \<Rightarrow> string option"

text \<open>
  The body of the loop, lines 41-80: the effects of the cycle in order and the state after
  it. An exception of the capture leaves the \<^verbatim>\<open>try\<close> block before any signal is emitted.
\<close>

definition cycle :: "imaging \<Rightarrow> EnergyMonitor \<Rightarrow> cycle_env \<Rightarrow> effect list \<times> EnergyMonitor" where
  "cycle lib st c =
     (let cfg = env_config c;
          thr = threshold cfg;
          polling_rate = polling_rate_ms cfg;
          mode = alert_mode cfg
      in case capture_and_read lib (env_grab c) (env_ocr c) (text_color cfg) mode of
           Inl msg \<Rightarrow> ([ocr_error msg, msleep 1000], st)
         | Inr (fx0, energy, filtered_img) \<Rightarrow>
             (let fx1 = (case filtered_img of
                           Some img \<Rightarrow> if mode = FILTERED then [filtered_image img] else []
                         | None \<Rightarrow> []);
                  (fx2, st') = detect thr mode energy st
              in (fx0 @ fx1 @ fx2 @ [msleep polling_rate], st')))"

text \<open>
  The loop over a finite list of observations. It leaves the loop (\<open>Stopped\<close>) at the
  first pass whose loop test reads a cleared \<^verbatim>\<open>_running\<close>; when the observations run out
  before that, it is still in the loop (\<open>Looping\<close>). The result lists the effects of each
  pass.
\<close>

datatype loop_status = Stopped | Looping

fun run :: "imaging \<Rightarrow> EnergyMonitor \<Rightarrow> cycle_env list
    \<Rightarrow> effect list list \<times> EnergyMonitor \<times> loop_status" where
  "run lib st [] = ([], st, Looping)"
| "run lib st (c # cs) =
     (if \<not> env_running c then ([], st, Stopped)
      else (let (fx, st') = cycle lib st c;
                (fxs, st'', status) = run lib st' cs
            in (fx # fxs, st'', status)))"

section \<open>Pillow's Lanczos resize of a mode L buffer\<close>

text \<open>
  \<^verbatim>\<open>Image.resize(size, Image.Resampling.LANCZOS)\<close> is not code of the repository. This
  section models what Pillow computes for an 8-bit single-channel buffer
  (\<^verbatim>\<open>libImaging/Resample.c\<close>): a horizontal pass over every row, then a vertical pass over
  every column, each with the truncated sinc filter of support 3, coefficients normalised
  to sum 1 and rounded to fixed point with 22 fractional bits, and the result of each pass
  clipped to a byte. The doubles of the C code are embedded as reals. The model serves to
  evaluate the upscale at a concrete mask; the theorems about the repository's own code
  hold for every resize function.
\<close>

definition sinc_filter :: "real \<Rightarrow> real" where
  "sinc_filter x = (if x = 0 then 1 else sin (x * pi) / (x * pi))"

definition lanczos_filter :: "real \<Rightarrow> real" where
  "lanczos_filter x = (if - 3 \<le> x \<and> x < 3 then sinc_filter x * sinc_filter (x / 3) else 0)"

text \<open>
  \<^verbatim>\<open>precompute_coeffs\<close> for the output index \<open>xx\<close>: the first input index that contributes
  and the normalised weights of the inputs from there on. The casts to \<^verbatim>\<open>int\<close> truncate
  towards zero, as \<open>py_int\<close> does.
\<close>

definition precompute_coeffs :: "nat \<Rightarrow> nat \<Rightarrow> nat \<Rightarrow> nat \<times> real list" where
  "precompute_coeffs in_size out_size xx =
     (let scale = real in_size / real out_size;
          filterscale = max scale 1;
          support = 3 * filterscale;
          center = (real xx + 0.5) * scale;
          ss = 1 / filterscale;
          xmin = max 0 (py_int (center - support + 0.5));
          xmax = min (int in_size) (py_int (center + support + 0.5)) - xmin;
          ws = map (\<lambda>x. lanczos_filter ((real x + real_of_int xmin - center + 0.5) * ss))
                   [0..<nat xmax];
          ww = sum_list ws
      in (nat xmin, map (\<lambda>w. if ww \<noteq> 0 then w / ww else w) ws))"

text \<open>\<^verbatim>\<open>normalize_coeffs_8bpc\<close>: rounding to fixed point, \<^verbatim>\<open>PRECISION_BITS = 32 - 8 - 2\<close>.\<close>

definition normalize_coeff_8bpc :: "real \<Rightarrow> int" where
  "normalize_coeff_8bpc k =
     (if k < 0 then py_int (- 0.5 + k * 2 ^ 22) else py_int (0.5 + k * 2 ^ 22))"

text \<open>\<^verbatim>\<open>clip8\<close>: the accumulator shifted right by the precision, clipped to a byte.\<close>

definition clip8 :: "int \<Rightarrow> 8 word" where
  "clip8 v =
     (let q = v div 2 ^ 22
      in if q < 0 then 0 else if 255 < q then 255 else word_of_int q)"

text \<open>One pass over one line (a row, or a column in the vertical pass).\<close>

definition resample_line :: "nat \<Rightarrow> 8 word list \<Rightarrow> 8 word list" where
  "resample_line out_size src =
     map (\<lambda>xx. case precompute_coeffs (length src) out_size xx of
                  (xmin, ks) \<Rightarrow>
                    clip8 (2 ^ 21 +
                      sum_list (map (\<lambda>(x, k). uint (src ! (x + xmin)) * normalize_coeff_8bpc k)
                                    (enumerate 0 ks))))
         [0..<out_size]"

definition resize_lanczos :: "nat \<times> nat \<Rightarrow> mask \<Rightarrow> mask" where
  "resize_lanczos sz m =
     (case sz of (xsize, ysize) \<Rightarrow>
        (let horiz = (if xsize \<noteq> img_width m
                      then map (resample_line xsize) (img_rows m)
                      else img_rows m);
             vert = (if ysize \<noteq> img_height m
                     then transpose (map (resample_line ysize) (transpose horiz))
                     else horiz)
         in \<lparr>img_width = xsize, img_height = ysize, img_rows = vert\<rparr>))"

section \<open>Example inputs\<close>

text \<open>
  Concrete inputs at which the theorems below are instantiated: an imaging library with
  a sampler that takes the pixel a position falls in and the Lanczos resize above, a two
  by two screenshot, a screenshot of one row with a black and a white pixel, and three
  observations of the loop (a pass whose capture raises, a pass in FILTERED mode, and a
  loop test after \<^verbatim>\<open>stop()\<close>).
\<close>

definition nearest_sample :: "rgb image \<Rightarrow> real \<times> real \<Rightarrow> rgb option" where
  "nearest_sample img p =
     (case p of (x, y) \<Rightarrow>
        if 0 \<le> x \<and> x < real (img_width img) \<and> 0 \<le> y \<and> y < real (img_height img)
        then Some (pixel_at img (nat \<lfloor>y\<rfloor>) (nat \<lfloor>x\<rfloor>))
        else None)"

definition example_lib :: imaging where
  "example_lib = \<lparr>bilinear = nearest_sample, lanczos = resize_lanczos\<rparr>"

definition example_image :: "rgb image" where
  "example_image =
     \<lparr>img_width = 2, img_height = 2,
      img_rows = [[(255, 255, 255), (214, 255, 255)], [(0, 0, 0), (240, 250, 230)]]\<rparr>"

definition edge_image :: "rgb image" where
  "edge_image = \<lparr>img_width = 2, img_height = 1, img_rows = [[(0, 0, 0), (255, 255, 255)]]\<rparr>"


definition filtered_pass :: cycle_env where
  "filtered_pass =
     \<lparr>env_running = True, env_config = default_config\<lparr>alert_mode := FILTERED\<rparr>,
      env_grab = Inr example_image, env_ocr = (\<lambda>m. Some ''42'')\<rparr>"


section \<open>Change detection: the two literal sequences\<close>

text \<open>
  C8. A fresh detector fed the readings 50, 50, 62, 62, 40 emits \<^verbatim>\<open>energy_changed\<close> three
  times, with 50 on the first observation, 62 and 40, and nothing on a repeated reading;
  this holds under every threshold and mode.
\<close>

theorem energy_events_edge_triggered:
  "map energy_payloads (feed thr mode init_monitor (map Some [50, 50, 62, 62, 40]))
     = [[50], [], [62], [], [40]]"
  by (simp add: detect_def init_monitor_def Let_def)

theorem energy_events_edge_triggered_witness:
  "map energy_payloads (feed 50 NUMBER init_monitor (map Some [50, 50, 62, 62, 40]))
     = [[50], [], [62], [], [40]]"
  by (rule energy_events_edge_triggered [of 50 NUMBER])

text \<open>
  C1, as stated: with threshold 50 and the readings 60, 40, 40, 55, 30 a fresh detector
  emits \<^verbatim>\<open>threshold_crossed\<close> three times and nothing on the first reading. The code emits
  on the first reading too: \<^verbatim>\<open>_last_below_threshold\<close> starts as \<^verbatim>\<open>None\<close>, which differs from
  \<^verbatim>\<open>False\<close>.
\<close>

theorem threshold_first_observation_counterexample:
  "map threshold_payloads (feed 50 NUMBER init_monitor (map Some [60, 40, 40, 55, 30]))
     \<noteq> [[], [True], [], [False], [True]]"
  by (simp add: detect_def init_monitor_def Let_def)

text \<open>
  C1, amended: the detector emits \<^verbatim>\<open>threshold_crossed\<close> four times: false on the first
  reading 60, true at the transition into 40, nothing for the repeated 40, false at the
  transition into 55 and true at the transition into 30.
\<close>

theorem threshold_events_edge_triggered:
  "map threshold_payloads (feed 50 mode init_monitor (map Some [60, 40, 40, 55, 30]))
     = [[False], [True], [], [False], [True]]"
  by (simp add: detect_def init_monitor_def Let_def)

theorem threshold_events_edge_triggered_witness:
  "map threshold_payloads (feed 50 IMAGE init_monitor (map Some [60, 40, 40, 55, 30]))
     = [[False], [True], [], [False], [True]]"
  by (rule threshold_events_edge_triggered [of IMAGE])

section \<open>The polling loop: failure and backoff\<close>





section \<open>The polling loop in FILTERED mode\<close>

lemma energy_payloads_append:
  "energy_payloads (a @ b) = energy_payloads a @ energy_payloads b"
  by (induction a rule: energy_payloads.induct) auto

lemma threshold_payloads_append:
  "threshold_payloads (a @ b) = threshold_payloads a @ threshold_payloads b"
  by (induction a rule: threshold_payloads.induct) auto

lemma recognizer_calls_append:
  "recognizer_calls (a @ b) = recognizer_calls a @ recognizer_calls b"
  by (induction a rule: recognizer_calls.induct) auto

text \<open>One pass in FILTERED mode, from any state of the detector.\<close>

lemma cycle_filtered:
  assumes "alert_mode (env_config c) = FILTERED"
  shows "energy_payloads (fst (cycle lib st c)) = []"
    and "recognizer_calls (fst (cycle lib st c)) = []"
    and "threshold_payloads (fst (cycle lib st c)) =
           (if isl (env_grab c) \<or> last_below_threshold st = Some True then [] else [True])"
    and "last_below_threshold (snd (cycle lib st c)) =
           (if isl (env_grab c) then last_below_threshold st else Some True)"
  using assms
  by (auto simp: cycle_def capture_and_read_def detect_def Let_def split: sum.splits)

lemma run_filtered_quiet:
  assumes "list_all (\<lambda>c. alert_mode (env_config c) = FILTERED) cs"
  shows "energy_payloads (concat (fst (run lib st cs))) = [] \<and>
         recognizer_calls (concat (fst (run lib st cs))) = []"
  using assms
proof (induction cs arbitrary: st)
  case Nil
  show ?case by simp
next
  case (Cons c cs)
  obtain fx st' where cy: "cycle lib st c = (fx, st')"
    by (cases "cycle lib st c") auto
  obtain fxs st'' status where r: "run lib st' cs = (fxs, st'', status)"
    by (cases "run lib st' cs") auto
  from Cons.prems have m: "alert_mode (env_config c) = FILTERED" by simp
  from cycle_filtered(1,2) [OF m, of lib st] cy
  have a: "energy_payloads fx = []" "recognizer_calls fx = []" by simp_all
  from Cons.IH [of st'] Cons.prems r
  have b: "energy_payloads (concat fxs) = []" "recognizer_calls (concat fxs) = []" by simp_all
  from cy r a b show ?case
    by (simp add: energy_payloads_append recognizer_calls_append)
qed

text \<open>Once the detector holds "below", FILTERED passes emit no threshold event.\<close>

lemma run_filtered_latched:
  assumes "list_all (\<lambda>c. alert_mode (env_config c) = FILTERED) cs"
    and "last_below_threshold st = Some True"
  shows "threshold_payloads (concat (fst (run lib st cs))) = []"
  using assms
proof (induction cs arbitrary: st)
  case Nil
  show ?case by simp
next
  case (Cons c cs)
  obtain fx st' where cy: "cycle lib st c = (fx, st')"
    by (cases "cycle lib st c") auto
  obtain fxs st'' status where r: "run lib st' cs = (fxs, st'', status)"
    by (cases "run lib st' cs") auto
  from Cons.prems have m: "alert_mode (env_config c) = FILTERED"
    and ms: "list_all (\<lambda>c. alert_mode (env_config c) = FILTERED) cs" by simp_all
  from cycle_filtered(3,4) [OF m, of lib st] cy Cons.prems(2)
  have a: "threshold_payloads fx = []" "last_below_threshold st' = Some True" by simp_all
  from Cons.IH [OF ms a(2)] r
  have b: "threshold_payloads (concat fxs) = []" by simp
  from cy r a b show ?case
    by (simp add: threshold_payloads_append)
qed

lemma run_filtered_threshold:
  assumes "list_all (\<lambda>c. alert_mode (env_config c) = FILTERED) cs"
  shows "threshold_payloads (concat (fst (run lib st cs))) = [] \<or>
         threshold_payloads (concat (fst (run lib st cs))) = [True]"
  using assms
proof (induction cs arbitrary: st)
  case Nil
  show ?case by simp
next
  case (Cons c cs)
  obtain fx st' where cy: "cycle lib st c = (fx, st')"
    by (cases "cycle lib st c") auto
  obtain fxs st'' status where r: "run lib st' cs = (fxs, st'', status)"
    by (cases "run lib st' cs") auto
  from Cons.prems have m: "alert_mode (env_config c) = FILTERED"
    and ms: "list_all (\<lambda>c. alert_mode (env_config c) = FILTERED) cs" by simp_all
  show ?case
  proof (cases "env_running c")
    case False
    then show ?thesis by simp
  next
    case running: True
    show ?thesis
    proof (cases "threshold_payloads fx = []")
      case True
      from Cons.IH [OF ms, of st'] r
      have "threshold_payloads (concat fxs) = [] \<or> threshold_payloads (concat fxs) = [True]"
        by simp
      with cy r True running show ?thesis
        by (simp add: threshold_payloads_append)
    next
      case False
      with cycle_filtered(3,4) [OF m, of lib st] cy
      have a: "threshold_payloads fx = [True]" "last_below_threshold st' = Some True"
        by (simp_all split: if_splits)
      from run_filtered_latched [OF ms a(2), of lib] r
      have "threshold_payloads (concat fxs) = []" by simp
      with cy r a running show ?thesis
        by (simp add: threshold_payloads_append)
    qed
  qed
qed

text \<open>
  C10. Over any number of passes that all run in FILTERED mode, from any state of the
  detector: the recognizer is never called, \<^verbatim>\<open>energy_changed\<close> is never emitted, and the
  \<^verbatim>\<open>threshold_crossed\<close> events of the whole run are at most one, with payload true (never
  false); none at all when the detector already holds "below".
\<close>

theorem filtered_mode_latched:
  assumes "list_all (\<lambda>c. alert_mode (env_config c) = FILTERED) cs"
  shows "recognizer_calls (concat (fst (run lib st cs))) = [] \<and>
         energy_payloads (concat (fst (run lib st cs))) = [] \<and>
         (threshold_payloads (concat (fst (run lib st cs))) = [] \<or>
          threshold_payloads (concat (fst (run lib st cs))) = [True]) \<and>
         threshold_payloads (concat (fst (run lib (st\<lparr>last_below_threshold := Some True\<rparr>) cs))) = []"
proof -
  have "last_below_threshold (st\<lparr>last_below_threshold := Some True\<rparr>) = Some True" by simp
  from run_filtered_latched [OF assms this]
  have "threshold_payloads (concat (fst (run lib (st\<lparr>last_below_threshold := Some True\<rparr>) cs))) = []" .
  with run_filtered_quiet [OF assms, of lib st] run_filtered_threshold [OF assms, of lib st]
  show ?thesis by auto
qed

theorem filtered_mode_latched_witness:
  "list_all (\<lambda>c. alert_mode (env_config c) = FILTERED) [filtered_pass, filtered_pass, filtered_pass] \<and>
   recognizer_calls (concat (fst (run example_lib init_monitor
       [filtered_pass, filtered_pass, filtered_pass]))) = [] \<and>
   energy_payloads (concat (fst (run example_lib init_monitor
       [filtered_pass, filtered_pass, filtered_pass]))) = [] \<and>
   map threshold_payloads (fst (run example_lib init_monitor
       [filtered_pass, filtered_pass, filtered_pass])) = [[True], [], []]"
proof -
  have h: "list_all (\<lambda>c. alert_mode (env_config c) = FILTERED)
             [filtered_pass, filtered_pass, filtered_pass]"
    by (simp add: filtered_pass_def)
  have c: "threshold_payloads (fst (cycle example_lib st filtered_pass)) =
             (if last_below_threshold st = Some True then [] else [True])"
          "last_below_threshold (snd (cycle example_lib st filtered_pass)) = Some True" for st
    by (simp_all add: cycle_filtered filtered_pass_def)
  have "map threshold_payloads (fst (run example_lib init_monitor
       [filtered_pass, filtered_pass, filtered_pass])) = [[True], [], []]"
    using c [of init_monitor]
      c [of "snd (cycle example_lib init_monitor filtered_pass)"]
      c [of "snd (cycle example_lib (snd (cycle example_lib init_monitor filtered_pass)) filtered_pass)"]
    by (simp add: Let_def split_beta init_monitor_def) (simp add: filtered_pass_def)
  with h filtered_mode_latched [OF h, of example_lib init_monitor] show ?thesis by simp
qed

section \<open>Hard policy: tolerance\<close>

lemma matched_pixels_iff:
  "(row, col) \<in> matched_pixels m \<longleftrightarrow>
     row < length (img_rows m) \<and> col < length (img_rows m ! row) \<and> img_rows m ! row ! col = 255"
  by (auto simp: matched_pixels_def pixel_at_def)

lemma channel_match_mono:
  "t1 \<le> t2 \<Longrightarrow> channel_match p target t1 \<Longrightarrow> channel_match p target t2"
  by (simp add: channel_match_def)

lemma matches_mono:
  "t1 \<le> t2 \<Longrightarrow> matches (tc\<lparr>tc_tolerance := t1\<rparr>) px \<Longrightarrow> matches (tc\<lparr>tc_tolerance := t2\<rparr>) px"
  by (auto simp: matches_def split: prod.splits intro: channel_match_mono)

text \<open>
  C7. For a fixed target colour and buffer, the pixels that the hard policy matches at
  tolerance \<open>t1\<close> are among those it matches at any tolerance \<open>t2\<close> from \<open>t1\<close> up.
\<close>

theorem tolerance_monotone:
  assumes "t1 \<le> t2"
  shows "matched_pixels (binary_mask (tc\<lparr>tc_tolerance := t1\<rparr>) img)
           \<subseteq> matched_pixels (binary_mask (tc\<lparr>tc_tolerance := t2\<rparr>) img)"
proof
  fix p assume p: "p \<in> matched_pixels (binary_mask (tc\<lparr>tc_tolerance := t1\<rparr>) img)"
  obtain row col where rc: "p = (row, col)" by (cases p)
  from p rc have b: "row < length (img_rows img)" "col < length (img_rows img ! row)"
    and m: "matches (tc\<lparr>tc_tolerance := t1\<rparr>) (img_rows img ! row ! col)"
    by (auto simp: matched_pixels_iff binary_mask_def split: if_splits)
  from matches_mono [OF assms m] b rc
  show "p \<in> matched_pixels (binary_mask (tc\<lparr>tc_tolerance := t2\<rparr>) img)"
    by (simp add: matched_pixels_iff binary_mask_def)
qed

theorem tolerance_monotone_witness:
  "(10 :: int) \<le> 30 \<and>
   matched_pixels (binary_mask (default_text_color\<lparr>tc_tolerance := 10\<rparr>) example_image)
     \<subseteq> matched_pixels (binary_mask (default_text_color\<lparr>tc_tolerance := 30\<rparr>) example_image)"
proof -
  have h: "(10 :: int) \<le> 30" by simp
  from h tolerance_monotone [OF h, of default_text_color example_image]
  show ?thesis by blast
qed

section \<open>Skew correction: height and sampling position\<close>

lemma py_int_nonneg: "0 \<le> v \<Longrightarrow> py_int v = \<lfloor>v\<rfloor>"
  by (simp add: py_int_def)








section \<open>Soft policy: the alpha of a pixel\<close>

lemma boosted_alpha_range:
  fixes a :: real
  assumes "0 \<le> a" "a \<le> 1"
  shows "0 \<le> a powr 0.7 * 255" "\<lfloor>a powr 0.7 * 255\<rfloor> \<le> 255" "0 \<le> \<lfloor>a powr 0.7 * 255\<rfloor>"
proof -
  have le1: "a powr 0.7 \<le> 1"
    using assms by (simp add: powr_le1)
  show "0 \<le> a powr 0.7 * 255" by simp
  then show "0 \<le> \<lfloor>a powr 0.7 * 255\<rfloor>" by simp
  from le1 have "a powr 0.7 * 255 \<le> 255" by simp
  then show "\<lfloor>a powr 0.7 * 255\<rfloor> \<le> 255" by (simp add: floor_le_iff)
qed

text \<open>Lines 205-209 for a divisor other than zero: every step stays finite.\<close>

lemma soft_alpha_finite:
  fixes d md :: real
  assumes "md \<noteq> 0"
  shows "astype_uint8 (np_times (np_power (np_clip01 (np_one_minus (np_divide d md))) 0.7) 255)
           = Some (word_of_int \<lfloor>(min (max (1 - d / md) 0) 1) powr 0.7 * 255\<rfloor>)"
proof -
  define a where "a = min (max (1 - d / md) 0) (1::real)"
  have a: "0 \<le> a" "a \<le> 1" by (simp_all add: a_def)
  have "np_clip01 (np_one_minus (np_divide d md)) = Finite a"
    using assms by (simp add: np_divide_def a_def)
  then have "astype_uint8 (np_times (np_power (np_clip01 (np_one_minus (np_divide d md))) 0.7) 255)
      = astype_uint8 (Finite (a powr 0.7 * 255))"
    using a(1) by simp
  also have "\<dots> = Some (word_of_int \<lfloor>a powr 0.7 * 255\<rfloor>)"
    using boosted_alpha_range [OF a] by (simp add: py_int_nonneg)
  finally show ?thesis by (simp only: a_def)
qed




lemma sqrt3_bounds: "1.732 < sqrt 3" "sqrt 3 < 1.7321"
proof -
  have "sqrt ((1.732::real)\<^sup>2) < sqrt 3"
    by (subst real_sqrt_less_iff) (simp add: power2_eq_square)
  then show "1.732 < sqrt 3" by simp
  have "sqrt 3 < sqrt ((1.7321::real)\<^sup>2)"
    by (subst real_sqrt_less_iff) (simp add: power2_eq_square)
  then show "sqrt 3 < 1.7321" by simp
qed








section \<open>Soft policy: tolerance zero\<close>

lemma distance_zero_iff:
  fixes r g b :: "8 word"
  shows "sqrt ((real (unat r) - real_of_int tr)\<^sup>2 + (real (unat g) - real_of_int tg)\<^sup>2 +
               (real (unat b) - real_of_int tb)\<^sup>2) = 0
     \<longleftrightarrow> uint r = tr \<and> uint g = tg \<and> uint b = tb"
proof -
  have eq: "real (unat w) - real_of_int t = 0 \<longleftrightarrow> uint w = t" for w :: "8 word" and t :: int
  proof -
    have "real (unat w) = real_of_int (uint w)" by simp
    then show ?thesis by (simp only: ) (metis eq_iff_diff_eq_0 of_int_eq_iff)
  qed
  show ?thesis
    using eq [of r tr] eq [of g tg] eq [of b tb]
    by (simp add: add_nonneg_eq_0_iff)
qed

lemma soft_alpha_zero_tolerance:
  assumes "tc_tolerance tc = 0"
  shows "soft_alpha tc (r, g, b) =
           (if uint r = tc_r tc \<and> uint g = tc_g tc \<and> uint b = tc_b tc then None else Some 0)"
proof -
  let ?d = "sqrt ((real (unat r) - real_of_int (tc_r tc))\<^sup>2 +
                  (real (unat g) - real_of_int (tc_g tc))\<^sup>2 +
                  (real (unat b) - real_of_int (tc_b tc))\<^sup>2)"
  note d0 = distance_zero_iff [of r "tc_r tc" g "tc_g tc" b "tc_b tc"]
  have dge: "0 \<le> ?d" by simp
  show ?thesis
  proof (cases "?d = 0")
    case True
    with d0 assms show ?thesis
      by (simp add: soft_alpha_def np_divide_def Let_def)
  next
    case False
    with dge have "0 < ?d" by linarith
    with d0 False assms show ?thesis
      by (simp add: soft_alpha_def np_divide_def Let_def py_int_def)
  qed
qed

lemma soft_alpha_defined:
  assumes "0 < tc_tolerance tc"
  shows "soft_alpha tc (r, g, b) \<noteq> None"
proof -
  from assms have nz: "real_of_int (tc_tolerance tc) * 1.732 \<noteq> 0" by simp
  show ?thesis
    unfolding soft_alpha_def Let_def prod.case
    by (simp only: soft_alpha_finite [OF nz]) simp
qed

text \<open>
  C9, as stated: at tolerance 0 the alpha of every pixel is undefined. The division by
  zero does not raise: for a pixel that differs from the target it gives infinity, which
  the clip turns into 0, so the pixel (10, 0, 0) against the target black has alpha 0.
\<close>

theorem soft_alpha_zero_tolerance_counterexample:
  "soft_alpha \<lparr>tc_r = 0, tc_g = 0, tc_b = 0, tc_tolerance = 0, tc_skew = 0\<rparr> (10, 0, 0) = Some 0"
  by (simp add: soft_alpha_def np_divide_def Let_def py_int_def)

text \<open>
  C9, amended: for a tolerance above 0 the alpha of every pixel is a byte. At tolerance 0
  the normalisation divides by zero: a pixel that differs from the target gets alpha 0,
  and only a pixel equal to the target (zero over zero, not-a-number) gets an alpha that
  the conversion to \<^verbatim>\<open>uint8\<close> leaves unspecified.
\<close>

theorem soft_alpha_tolerance:
  "(0 < tc_tolerance tc \<longrightarrow> soft_alpha tc (r, g, b) \<noteq> None) \<and>
   (tc_tolerance tc = 0 \<longrightarrow>
      soft_alpha tc (r, g, b) =
        (if uint r = tc_r tc \<and> uint g = tc_g tc \<and> uint b = tc_b tc then None else Some 0))"
  using soft_alpha_defined [of tc r g b] soft_alpha_zero_tolerance [of tc r g b] by blast

theorem soft_alpha_tolerance_witness:
  "0 < tc_tolerance default_text_color \<and>
   soft_alpha default_text_color (214, 255, 255) \<noteq> None \<and>
   tc_tolerance (default_text_color\<lparr>tc_tolerance := 0\<rparr>) = 0 \<and>
   soft_alpha (default_text_color\<lparr>tc_tolerance := 0\<rparr>) (214, 255, 255) = Some 0 \<and>
   soft_alpha (default_text_color\<lparr>tc_tolerance := 0\<rparr>) (255, 255, 255) = None"
proof -
  have h1: "0 < tc_tolerance default_text_color" by (simp add: default_text_color_def)
  have h2: "tc_tolerance (default_text_color\<lparr>tc_tolerance := 0\<rparr>) = 0" by simp
  from soft_alpha_tolerance [of default_text_color 214 255 255] h1
  have a: "soft_alpha default_text_color (214, 255, 255) \<noteq> None" by blast
  from soft_alpha_tolerance [of "default_text_color\<lparr>tc_tolerance := 0\<rparr>" 214 255 255] h2
  have b: "soft_alpha (default_text_color\<lparr>tc_tolerance := 0\<rparr>) (214, 255, 255) = Some 0"
    by (simp add: default_text_color_def)
  from soft_alpha_tolerance [of "default_text_color\<lparr>tc_tolerance := 0\<rparr>" 255 255 255] h2
  have c: "soft_alpha (default_text_color\<lparr>tc_tolerance := 0\<rparr>) (255, 255, 255) = None"
    by (simp add: default_text_color_def)
  from h1 h2 a b c show ?thesis by blast
qed

section \<open>Hard policy: the mask before and after the upscale\<close>

text \<open>The Lanczos filter at the positions that the upscale of a line of two pixels uses.\<close>

lemma sin_pi_12: "sin (pi / 12) = sqrt 2 * (sqrt 3 - 1) / 4"
proof -
  have "pi / 12 = pi / 3 - pi / 4" by simp
  then have "sin (pi / 12) = sin (pi / 3) * cos (pi / 4) - cos (pi / 3) * sin (pi / 4)"
    by (simp only: sin_diff)
  also have "\<dots> = sqrt 2 * (sqrt 3 - 1) / 4"
    by (simp add: sin_60 cos_60 sin_45 cos_45 algebra_simps)
  finally show ?thesis .
qed

lemma sin_3pi_4: "sin (3 * pi / 4) = sqrt 2 / 2"
proof -
  have "3 * pi / 4 = pi - pi / 4" by simp
  then show ?thesis by (simp only: sin_pi_minus sin_45)
qed

lemma lanczos_minus_quarter: "lanczos_filter (- 1 / 4) = 12 * (sqrt 3 - 1) / pi\<^sup>2"
proof -
  have a: "sinc_filter (- 1 / 4) = (sqrt 2 / 2) / (pi / 4)"
    using sin_45 by (simp add: sinc_filter_def)
  have "(- 1 / 4 :: real) / 3 * pi = - (pi / 12)" by simp
  then have b: "sinc_filter (- 1 / 4 / 3) = (sqrt 2 * (sqrt 3 - 1) / 4) / (pi / 12)"
    using sin_pi_12 by (simp add: sinc_filter_def)
  have "lanczos_filter (- 1 / 4) = sinc_filter (- 1 / 4) * sinc_filter (- 1 / 4 / 3)"
    by (simp add: lanczos_filter_def)
  also have "\<dots> = (sqrt 2 / 2) / (pi / 4) * ((sqrt 2 * (sqrt 3 - 1) / 4) / (pi / 12))"
    by (simp only: a b)
  also have "\<dots> = (sqrt 2 * sqrt 2) * (6 * (sqrt 3 - 1)) / pi\<^sup>2"
    by (simp add: power2_eq_square field_simps)
  also have "\<dots> = 12 * (sqrt 3 - 1) / pi\<^sup>2" by simp
  finally show ?thesis .
qed

lemma lanczos_three_quarters: "lanczos_filter (3 / 4) = 8 / (3 * pi\<^sup>2)"
proof -
  have "(3 / 4 :: real) * pi = 3 * pi / 4" by simp
  then have a: "sinc_filter (3 / 4) = (sqrt 2 / 2) / (3 * pi / 4)"
    using sin_3pi_4 by (simp add: sinc_filter_def)
  have "(3 / 4 :: real) / 3 * pi = pi / 4" by simp
  then have b: "sinc_filter (3 / 4 / 3) = (sqrt 2 / 2) / (pi / 4)"
    using sin_45 by (simp add: sinc_filter_def)
  have "lanczos_filter (3 / 4) = sinc_filter (3 / 4) * sinc_filter (3 / 4 / 3)"
    by (simp add: lanczos_filter_def)
  also have "\<dots> = (sqrt 2 / 2) / (3 * pi / 4) * ((sqrt 2 / 2) / (pi / 4))"
    by (simp only: a b)
  also have "\<dots> = (sqrt 2 * sqrt 2) * 4 / (3 * pi\<^sup>2)"
    by (simp add: power2_eq_square field_simps)
  also have "\<dots> = 8 / (3 * pi\<^sup>2)" by simp
  finally show ?thesis .
qed


lemma coeffs_2_4_1:
  "precompute_coeffs 2 4 1 =
     (0, [lanczos_filter (- 1 / 4) / (lanczos_filter (- 1 / 4) + lanczos_filter (3 / 4)),
          lanczos_filter (3 / 4) / (lanczos_filter (- 1 / 4) + lanczos_filter (3 / 4))])"
proof -
  have pos: "0 < lanczos_filter (- 1 / 4) + lanczos_filter (3 / 4)"
  proof -
    have "1 < sqrt 3" using sqrt3_bounds(1) by simp
    then have "0 < 12 * (sqrt 3 - 1) / pi\<^sup>2" by simp
    moreover have "0 < 8 / (3 * pi\<^sup>2)" by simp
    ultimately show ?thesis by (simp only: lanczos_minus_quarter lanczos_three_quarters)
  qed
  have upt: "[0..<2] = [0, Suc 0]" by (simp add: upt_rec)
  show ?thesis
    unfolding precompute_coeffs_def Let_def
    using pos by (simp add: py_int_def upt cong: if_cong)
qed


lemma second_weight:
  "lanczos_filter (3 / 4) / (lanczos_filter (- 1 / 4) + lanczos_filter (3 / 4))
     = 2 / (9 * sqrt 3 - 7)"
proof -
  have p: "pi\<^sup>2 \<noteq> 0" by simp
  have d: "9 * sqrt 3 - 7 \<noteq> 0" using sqrt3_bounds(1) by simp
  have s: "12 * (sqrt 3 - 1) / pi\<^sup>2 + 8 / (3 * pi\<^sup>2) = (4 / (3 * pi\<^sup>2)) * (9 * sqrt 3 - 7)"
    using p by (simp add: field_simps)
  have "8 / (3 * pi\<^sup>2) / ((4 / (3 * pi\<^sup>2)) * (9 * sqrt 3 - 7)) = 2 / (9 * sqrt 3 - 7)"
    using p d by (simp add: field_simps)
  then show ?thesis
    by (simp only: lanczos_minus_quarter lanczos_three_quarters s)
qed

lemma first_weight:
  "lanczos_filter (- 1 / 4) / (lanczos_filter (- 1 / 4) + lanczos_filter (3 / 4))
     = 1 - 2 / (9 * sqrt 3 - 7)"
proof -
  have pos: "lanczos_filter (- 1 / 4) + lanczos_filter (3 / 4) \<noteq> 0"
  proof -
    have "1 < sqrt 3" using sqrt3_bounds(1) by simp
    then have "0 < 12 * (sqrt 3 - 1) / pi\<^sup>2" by simp
    moreover have "0 < 8 / (3 * pi\<^sup>2)" by simp
    ultimately show ?thesis by (simp only: lanczos_minus_quarter lanczos_three_quarters)
  qed
  have "lanczos_filter (- 1 / 4) / (lanczos_filter (- 1 / 4) + lanczos_filter (3 / 4))
      = 1 - lanczos_filter (3 / 4) / (lanczos_filter (- 1 / 4) + lanczos_filter (3 / 4))"
    using pos by (simp add: field_simps)
  then show ?thesis by (simp only: second_weight)
qed

lemma second_weight_bounds:
  "0.2328 < 2 / (9 * sqrt 3 - 7)" "2 / (9 * sqrt 3 - 7) < 0.2329"
proof -
  have lo: "8.588 < 9 * sqrt 3 - 7" using sqrt3_bounds(1) by simp
  have hi: "9 * sqrt 3 - 7 < 8.5889" using sqrt3_bounds(2) by simp
  from lo hi show "0.2328 < 2 / (9 * sqrt 3 - 7)"
    by (simp add: field_simps)
  from lo hi show "2 / (9 * sqrt 3 - 7) < 0.2329"
    by (simp add: field_simps)
qed

lemma normalize_coeff_bounds:
  assumes "0.2328 < k" and "k < 0.2329"
  shows "976434 \<le> normalize_coeff_8bpc k" "normalize_coeff_8bpc k \<le> 976853"
proof -
  have n: "normalize_coeff_8bpc k = \<lfloor>0.5 + k * 2 ^ 22\<rfloor>"
    using assms(1) by (simp add: normalize_coeff_8bpc_def py_int_def)
  have "976434 \<le> 0.5 + k * 2 ^ 22" using assms(1) by simp
  then show "976434 \<le> normalize_coeff_8bpc k"
    unfolding n by (simp add: le_floor_iff)
  have "0.5 + k * 2 ^ 22 < 976854" using assms(2) by simp
  then have "\<lfloor>0.5 + k * 2 ^ 22\<rfloor> < 976854" by (simp add: floor_less_iff)
  then show "normalize_coeff_8bpc k \<le> 976853"
    unfolding n by simp
qed

lemma clip8_59:
  assumes "976434 \<le> n" and "n \<le> 976853"
  shows "clip8 (2 ^ 21 + 255 * n) = 59"
proof -
  have "(2 ^ 21 + 255 * n) div 2 ^ 22 = 59"
    using assms by simp
  then show ?thesis by (simp add: clip8_def)
qed

lemma resample_edge: "resample_line 4 [0, 255] ! 1 = 59"
proof -
  have "precompute_coeffs (Suc (Suc 0)) 4 (Suc 0) = precompute_coeffs 2 4 1"
    by (simp only: numeral_2_eq_2 One_nat_def)
  then have c: "precompute_coeffs (Suc (Suc 0)) 4 (Suc 0) = (0, [1 - 2 / (9 * sqrt 3 - 7), 2 / (9 * sqrt 3 - 7)])"
    by (simp only: coeffs_2_4_1 second_weight first_weight)
  have "resample_line 4 [0, 255] ! 1 =
          clip8 (2 ^ 21 + 255 * normalize_coeff_8bpc (2 / (9 * sqrt 3 - 7)))"
    by (simp add: resample_line_def c)
  then show ?thesis
    using clip8_59 [OF normalize_coeff_bounds [OF second_weight_bounds]] by simp
qed


lemma lanczos_quarter: "lanczos_filter (1 / 4) = 12 * (sqrt 3 - 1) / pi\<^sup>2"
proof -
  have "(1 / 4 :: real) * pi = pi / 4" by simp
  then have a: "sinc_filter (1 / 4) = (sqrt 2 / 2) / (pi / 4)"
    using sin_45 by (simp add: sinc_filter_def)
  have "(1 / 4 :: real) / 3 * pi = pi / 12" by simp
  then have b: "sinc_filter (1 / 4 / 3) = (sqrt 2 * (sqrt 3 - 1) / 4) / (pi / 12)"
    using sin_pi_12 by (simp add: sinc_filter_def)
  have "lanczos_filter (1 / 4) = sinc_filter (1 / 4) * sinc_filter (1 / 4 / 3)"
    by (simp add: lanczos_filter_def)
  also have "\<dots> = (sqrt 2 / 2) / (pi / 4) * ((sqrt 2 * (sqrt 3 - 1) / 4) / (pi / 12))"
    by (simp only: a b)
  also have "\<dots> = (sqrt 2 * sqrt 2) * (6 * (sqrt 3 - 1)) / pi\<^sup>2"
    by (simp add: power2_eq_square field_simps)
  also have "\<dots> = 12 * (sqrt 3 - 1) / pi\<^sup>2" by simp
  finally show ?thesis .
qed

lemma lanczos_quarter_nonzero: "lanczos_filter (1 / 4) \<noteq> 0" "lanczos_filter (- 1 / 4) \<noteq> 0"
proof -
  have "1 < sqrt 3" using sqrt3_bounds(1) by simp
  then have "0 < 12 * (sqrt 3 - 1) / pi\<^sup>2" by simp
  then show "lanczos_filter (1 / 4) \<noteq> 0" "lanczos_filter (- 1 / 4) \<noteq> 0"
    by (simp_all only: lanczos_quarter lanczos_minus_quarter)
qed

lemma coeffs_1_2: "precompute_coeffs 1 2 0 = (0, [1])" "precompute_coeffs 1 2 1 = (0, [1])"
proof -
  have upt: "[0..<1] = [0]" by (simp add: upt_rec)
  show "precompute_coeffs 1 2 0 = (0, [1])"
    unfolding precompute_coeffs_def Let_def
    using lanczos_quarter_nonzero by (simp add: py_int_def upt cong: if_cong)
  show "precompute_coeffs 1 2 1 = (0, [1])"
    unfolding precompute_coeffs_def Let_def
    using lanczos_quarter_nonzero by (simp add: py_int_def upt cong: if_cong)
qed

lemma clip8_unit: "clip8 (2 ^ 21 + uint (v :: 8 word) * 2 ^ 22) = v"
proof -
  have "(2 ^ 21 + uint v * 2 ^ 22) div 2 ^ 22 = uint v"
    by simp
  moreover have "0 \<le> uint v" "uint v \<le> 255"
    using uint_bounded [of v] by simp_all
  ultimately show ?thesis by (simp add: clip8_def)
qed

lemma resample_single: "resample_line 2 [v] = [v, v]"
proof -
  have c: "precompute_coeffs (Suc 0) 2 0 = (0, [1])" "precompute_coeffs (Suc 0) 2 (Suc 0) = (0, [1])"
    using coeffs_1_2 by simp_all
  have upt: "[0..<2] = [0, Suc 0]" by (simp add: upt_rec)
  have n: "normalize_coeff_8bpc 1 = 2 ^ 22"
    by (simp add: normalize_coeff_8bpc_def py_int_def)
  show ?thesis
    using clip8_unit [of v] by (simp add: resample_line_def c upt n)
qed

lemma length_resample_line: "length (resample_line n src) = n"
  by (simp add: resample_line_def)

lemma binary_mask_binary: "binary_valued (binary_mask tc img)"
  by (auto simp: binary_valued_def binary_mask_def list_all_iff)

lemma binary_mask_edge: "binary_mask default_text_color edge_image =
    \<lparr>img_width = 2, img_height = 1, img_rows = [[0, 255]]\<rparr>"
  by (simp add: binary_mask_def edge_image_def default_text_color_def matches_def
      channel_match_def np_abs16_def)

lemma upscaled_edge:
  "\<exists>a c d. preprocess_image example_lib edge_image default_text_color =
     \<lparr>img_width = 4, img_height = 2, img_rows = [[a, 59, c, d], [a, 59, c, d]]\<rparr>"
proof -
  obtain a b c d where l: "resample_line 4 [0, 255] = [a, b, c, d]"
  proof -
    have "length (resample_line 4 [0, 255]) = 4" by (rule length_resample_line)
    then show ?thesis
      by (auto simp: length_Suc_conv numeral_eq_Suc intro: that)
  qed
  from resample_edge l have b: "b = 59" by simp
  have "preprocess_image example_lib edge_image default_text_color =
          resize_lanczos (4, 2) \<lparr>img_width = 2, img_height = 1, img_rows = [[0, 255]]\<rparr>"
    by (simp add: preprocess_image_def default_text_color_def [THEN arg_cong, of tc_skew]
        binary_mask_edge example_lib_def Let_def)
  also have "\<dots> = \<lparr>img_width = 4, img_height = 2, img_rows = [[a, b, c, d], [a, b, c, d]]\<rparr>"
    by (simp add: resize_lanczos_def l resample_single)
  finally show ?thesis using b by blast
qed

text \<open>
  C4, as stated: every pixel of the mask handed to the recognizer, after the 2x upscale,
  is 0 or 255. For a screenshot of one row with a black and a white pixel and the default
  target, the mask before the upscale is 0, 255; the Lanczos upscale to four columns puts
  59 in column 1 of row 0.
\<close>

theorem upscaled_mask_counterexample:
  "pixel_at (preprocess_image example_lib edge_image default_text_color) 0 1 = 59 \<and>
   \<not> binary_valued (preprocess_image example_lib edge_image default_text_color)"
proof -
  from upscaled_edge obtain a c d
    where "preprocess_image example_lib edge_image default_text_color =
      \<lparr>img_width = 4, img_height = 2, img_rows = [[a, 59, c, d], [a, 59, c, d]]\<rparr>"
    by blast
  then show ?thesis by (simp add: pixel_at_def binary_valued_def)
qed

text \<open>
  C4, amended: for every buffer and parameters, every pixel of the hard-policy mask before
  the 2x upscale is exactly 0 or exactly 255; the mask handed to the recognizer is the
  Lanczos resize of that mask to twice its width and height.
\<close>

theorem hard_mask_binary:
  "binary_valued (binary_mask tc img) \<and>
   preprocess_image lib img tc =
     (let img1 = (if tc_skew tc \<noteq> 0 then apply_skew lib img (tc_skew tc) else img)
      in lanczos lib (img_width img1 * 2, img_height img1 * 2) (binary_mask tc img1)) \<and>
   binary_valued (binary_mask tc
     (if tc_skew tc \<noteq> 0 then apply_skew lib img (tc_skew tc) else img))"
  by (simp add: binary_mask_binary preprocess_image_def Let_def) (simp add: binary_mask_def)

theorem hard_mask_binary_witness:
  "binary_valued (binary_mask default_text_color example_image) \<and>
   img_rows (binary_mask default_text_color example_image) = [[255, 0], [0, 255]] \<and>
   preprocess_image example_lib edge_image default_text_color =
     resize_lanczos (4, 2) \<lparr>img_width = 2, img_height = 1, img_rows = [[0, 255]]\<rparr>"
proof -
  have m: "img_rows (binary_mask default_text_color example_image) = [[255, 0], [0, 255]]"
    by (simp add: binary_mask_def example_image_def default_text_color_def matches_def
        channel_match_def np_abs16_def)
  have s: "tc_skew default_text_color = 0" by (simp add: default_text_color_def)
  from hard_mask_binary [of default_text_color example_image example_lib]
  have a: "binary_valued (binary_mask default_text_color example_image)" by blast
  from hard_mask_binary [of default_text_color edge_image example_lib] s
  have "preprocess_image example_lib edge_image default_text_color =
     resize_lanczos (4, 2) \<lparr>img_width = 2, img_height = 1, img_rows = [[0, 255]]\<rparr>"
    by (simp add: binary_mask_edge example_lib_def) (simp add: edge_image_def)
  with a m show ?thesis by blast
qed

end
